theory Spec2Isabelle
  imports Complex_Main
begin

section \<open>Solar system animation (solarsystem.py)\<close>

text \<open>
  The script builds a scene once (planet table, orbit curves, planets with their moons,
  a star field) and then lets the animation driver call \<open>update(frame)\<close> once per tick.
  Numbers are modelled as follows: Python \<open>int\<close> as \<open>int\<close>, Python and numpy floats as
  \<open>real\<close>. The model therefore computes in exact arithmetic where the source rounds to
  IEEE doubles: an equation between computed coordinates that holds here holds in the
  source up to rounding only, and nothing below is meant as a statement about the bits of
  a double. The two kinds of division by zero of the source stay apart:
  \<^item> a division of Python scalars (\<open>r / (1 - e)\<close>, \<open>2 * np.pi * frame / period\<close>) raises
    \<open>ZeroDivisionError\<close>: the model returns \<open>Inl ZeroDivisionError\<close>;
  \<^item> a division by a numpy scalar (\<open>... / (1 + e * np.cos(angle))\<close>) or a numpy square root
    of a negative number raises nothing and yields \<open>inf\<close> or \<open>nan\<close>: the model returns
    \<open>None\<close> in place of the number, and everything computed from it is \<open>None\<close> too.

  Python also raises \<open>OverflowError\<close> when \<open>e**2\<close> leaves the range of a double (lines 37
  and 96) and when an integer too large for a double is converted (the frame index and the
  periods, lines 95 and 106). The model does not follow these: it covers the inputs inside
  that range, and a statement about which calls raise carries the range as a hypothesis
  (\<open>within_float_range\<close> below).
\<close>

subsection \<open>Data\<close>

datatype error = ZeroDivisionError

text \<open>A planet descriptor is the tuple
  (name, orbital radius, size, color, orbital period in frames, eccentricity, moons).\<close>

type_synonym planet_desc = "string \<times> real \<times> real \<times> string \<times> int \<times> real \<times> int"

definition planet_data :: "planet_desc list" where
  "planet_data =
    [(''Mercury'', 1.5, 0.08, ''darkgoldenrod'', 88, 0.2, 0),
     (''Venus'', 2.2, 0.12, ''bisque'', 225, 0.01, 0),
     (''Earth'', 3.0, 0.13, ''dodgerblue'', 365, 0.02, 1),
     (''Mars'', 3.8, 0.11, ''tomato'', 687, 0.09, 2),
     (''Jupiter'', 5.5, 0.25, ''burlywood'', 4333, 0.05, 4),
     (''Saturn'', 7.0, 0.22, ''navajowhite'', 10759, 0.06, 3),
     (''Uranus'', 8.2, 0.18, ''lightcyan'', 30687, 0.05, 2),
     (''Neptune'', 9.5, 0.17, ''royalblue'', 60190, 0.01, 1)]"

text \<open>A position is a pair of coordinates, or \<open>None\<close> when the coordinates are not finite.\<close>

type_synonym position = "(real \<times> real) option"

text \<open>The drawn objects: \<open>plt.Circle\<close> with its mutable \<open>center\<close>, and the text label with
  its mutable position.\<close>

record circle =
  center :: position
  radius :: real
  color :: string

record label =
  label_text :: string
  label_position :: position

text \<open>A moon is the tuple (moon, moon_orbit_radius, moon_period); a planet is the tuple
  (planet_circle, label, a, e, period, planet_moons).\<close>

type_synonym moon = "circle \<times> real \<times> int"

type_synonym planet = "circle \<times> label \<times> real \<times> real \<times> int \<times> moon list"

text \<open>The module-level mutable state. Element \<open>i\<close> of \<open>stars\<close> is the pair
  \<open>(x_stars[i], y_stars[i])\<close> of the two numpy arrays of length 200; their initial values
  come from the seeded random generator and are a parameter of the model. The global list
  \<open>moons\<close> holds the very tuples of the \<open>planet_moons\<close> lists, in order, so it is
  \<open>concat\<close> of those lists and needs no field of its own.\<close>

record scene =
  planets :: "planet list"
  stars :: "(real \<times> real) list"

subsection \<open>Scene builder\<close>

text \<open>Lines 34 to 41: the semi-axes of each orbit curve and its 300 sample points.\<close>

definition linspace :: "real \<Rightarrow> real \<Rightarrow> nat \<Rightarrow> real list" where
  "linspace lo hi n = map (\<lambda>k. lo + real k * (hi - lo) / real (n - 1)) [0..<n]"

definition orbit_curve :: "planet_desc \<Rightarrow> error + (real \<times> real option) list" where
  "orbit_curve planet =
    (case planet of (name, r, size', color', period, e, moons) \<Rightarrow>
      if 1 - e = 0 then Inl ZeroDivisionError
      else
        let a = r / (1 - e);
            b = (if 1 - e\<^sup>2 < 0 then None else Some (a * sqrt (1 - e\<^sup>2)));
            theta = linspace 0 (2 * pi) 300
        in Inr (map (\<lambda>t. (a * cos t - a * e,
                           case b of None \<Rightarrow> None | Some b' \<Rightarrow> Some (b' * sin t))) theta))"

fun create_orbits :: "planet_desc list \<Rightarrow> error + (real \<times> real option) list list" where
  "create_orbits [] = Inr []"
| "create_orbits (planet # rest) =
    (case orbit_curve planet of
       Inl err \<Rightarrow> Inl err
     | Inr curve \<Rightarrow>
        (case create_orbits rest of
           Inl err \<Rightarrow> Inl err
         | Inr curves \<Rightarrow> Inr (curve # curves)))"

text \<open>Lines 70 to 76: the moons of one planet, \<open>for j in range(num_moons)\<close>.\<close>

definition create_moons :: "real \<Rightarrow> int \<Rightarrow> moon list" where
  "create_moons size' num_moons =
    map (\<lambda>j. let moon_size = size' * 0.3;
                 moon_orbit_radius = size' * 2.5;
                 moon = \<lparr>center = Some (0, 0), radius = moon_size * 0.5, color = ''lightgray''\<rparr>
             in (moon, moon_orbit_radius, 20 * (int j + 1)))
        [0..<nat num_moons]"

text \<open>Lines 58 to 79: one iteration of the loop that creates the planets.\<close>

definition create_planet :: "planet_desc \<Rightarrow> error + planet" where
  "create_planet planet =
    (case planet of (name, r, size', color', period, e, num_moons) \<Rightarrow>
      if 1 - e = 0 then Inl ZeroDivisionError
      else
        let a = r / (1 - e);
            planet_circle = \<lparr>center = Some (0, 0), radius = size', color = color'\<rparr>;
            label = \<lparr>label_text = name, label_position = Some (0, 0)\<rparr>;
            planet_moons = create_moons size' num_moons
        in Inr (planet_circle, label, a, e, period, planet_moons))"

fun create_planets :: "planet_desc list \<Rightarrow> error + planet list" where
  "create_planets [] = Inr []"
| "create_planets (planet # rest) =
    (case create_planet planet of
       Inl err \<Rightarrow> Inl err
     | Inr p \<Rightarrow>
        (case create_planets rest of
           Inl err \<Rightarrow> Inl err
         | Inr ps \<Rightarrow> Inr (p # ps)))"

text \<open>The module body up to the start of the animation: orbit curves first, planets second.
  The sun, its glow and the asteroid belt are drawn once and never read again.\<close>

definition build_scene :: "planet_desc list \<Rightarrow> (real \<times> real) list \<Rightarrow> error + scene" where
  "build_scene descs stars0 =
    (case create_orbits descs of
       Inl err \<Rightarrow> Inl err
     | Inr curves \<Rightarrow>
        (case create_planets descs of
           Inl err \<Rightarrow> Inl err
         | Inr ps \<Rightarrow> Inr \<lparr>planets = ps, stars = stars0\<rparr>))"

subsection \<open>Orbit model\<close>

text \<open>Lines 95 and 106: \<open>2 * np.pi * frame / period\<close>, a division of Python scalars.\<close>

definition orbit_angle :: "int \<Rightarrow> int \<Rightarrow> error + real" where
  "orbit_angle frame period =
    (if period = 0 then Inl ZeroDivisionError
     else Inr (2 * pi * of_int frame / of_int period))"

text \<open>Line 96: \<open>a * (1 - e**2) / (1 + e * np.cos(angle))\<close>, a division by a numpy scalar.\<close>

definition radial_denominator :: "real \<Rightarrow> real \<Rightarrow> real" where
  "radial_denominator e angle = 1 + e * cos angle"

definition radial_distance :: "real \<Rightarrow> real \<Rightarrow> real \<Rightarrow> real option" where
  "radial_distance a e angle =
    (if radial_denominator e angle = 0 then None
     else Some (a * (1 - e\<^sup>2) / radial_denominator e angle))"

text \<open>Lines 95 to 98.\<close>

definition planet_position :: "int \<Rightarrow> real \<Rightarrow> real \<Rightarrow> int \<Rightarrow> error + position" where
  "planet_position frame a e period =
    (case orbit_angle frame period of
       Inl err \<Rightarrow> Inl err
     | Inr angle \<Rightarrow>
        Inr (case radial_distance a e angle of
               None \<Rightarrow> None
             | Some r \<Rightarrow> Some (r * cos angle - a * e, r * sin angle)))"

text \<open>Lines 106 to 108.\<close>

definition moon_position :: "int \<Rightarrow> position \<Rightarrow> real \<Rightarrow> int \<Rightarrow> error + position" where
  "moon_position frame xy moon_orbit_radius moon_period =
    (case orbit_angle frame moon_period of
       Inl err \<Rightarrow> Inl err
     | Inr moon_angle \<Rightarrow>
        Inr (case xy of
               None \<Rightarrow> None
             | Some (x, y) \<Rightarrow>
                 Some (x + moon_orbit_radius * cos moon_angle,
                       y + moon_orbit_radius * sin moon_angle)))"

subsection \<open>Frame updater\<close>

text \<open>Lines 105 to 109: the loop over the moons of one planet, given the planet position
  \<open>(x, y)\<close> computed in this call.\<close>

fun update_moons :: "int \<Rightarrow> position \<Rightarrow> moon list \<Rightarrow> error + moon list" where
  "update_moons frame xy [] = Inr []"
| "update_moons frame xy ((moon, moon_orbit_radius, moon_period) # rest) =
    (case moon_position frame xy moon_orbit_radius moon_period of
       Inl err \<Rightarrow> Inl err
     | Inr mxy \<Rightarrow>
        (case update_moons frame xy rest of
           Inl err \<Rightarrow> Inl err
         | Inr rest' \<Rightarrow> Inr ((moon\<lparr>center := mxy\<rparr>, moon_orbit_radius, moon_period) # rest')))"

text \<open>Lines 92 to 109: the body of the loop over the planets.\<close>

definition update_planet :: "int \<Rightarrow> planet \<Rightarrow> error + planet" where
  "update_planet frame planet =
    (case planet of (circle, label, a, e, period, planet_moons) \<Rightarrow>
      (case planet_position frame a e period of
         Inl err \<Rightarrow> Inl err
       | Inr xy \<Rightarrow>
          let circle' = circle\<lparr>center := xy\<rparr>;
              label' = label\<lparr>label_position :=
                         (case xy of
                            None \<Rightarrow> None
                          | Some (x, y) \<Rightarrow> Some (x, y + radius circle' + 0.1))\<rparr>
          in (case update_moons frame xy planet_moons of
                Inl err \<Rightarrow> Inl err
              | Inr planet_moons' \<Rightarrow> Inr (circle', label', a, e, period, planet_moons'))))"

fun update_planets :: "int \<Rightarrow> planet list \<Rightarrow> error + planet list" where
  "update_planets frame [] = Inr []"
| "update_planets frame (planet # rest) =
    (case update_planet frame planet of
       Inl err \<Rightarrow> Inl err
     | Inr planet' \<Rightarrow>
        (case update_planets frame rest of
           Inl err \<Rightarrow> Inl err
         | Inr rest' \<Rightarrow> Inr (planet' # rest')))"

text \<open>Lines 114 to 116: one star. The second assignment reads \<open>x_stars[i]\<close> after the first
  one has stored into it.\<close>

definition star_distance :: "real \<times> real \<Rightarrow> real" where
  "star_distance s = (case s of (x, y) \<Rightarrow> sqrt (x\<^sup>2 + y\<^sup>2))"

definition star_step :: "real \<times> real \<Rightarrow> real \<times> real" where
  "star_step s =
    (case s of (x, y) \<Rightarrow>
      let distance = star_distance (x, y);
          x' = x + 0.001 * (12 - distance) * (- y) / (distance + 0.1);
          y' = y + 0.001 * (12 - distance) * x' / (distance + 0.1)
      in (x', y'))"

text \<open>The state change of \<open>update(frame)\<close>: planets with their moons, then the stars.
  Python's \<open>%\<close> on integers is the floored modulus, as \<open>mod\<close> on \<open>int\<close>.\<close>

definition update_scene :: "int \<Rightarrow> scene \<Rightarrow> error + scene" where
  "update_scene frame s =
    (case update_planets frame (planets s) of
       Inl err \<Rightarrow> Inl err
     | Inr planets' \<Rightarrow>
        Inr (s\<lparr>planets := planets',
               stars := (if frame mod 5 = 0 then map star_step (stars s) else stars s)\<rparr>))"

text \<open>\<open>update(frame)\<close> with its return value, the circles of all planets followed by the
  circles of all moons.\<close>

definition update :: "int \<Rightarrow> scene \<Rightarrow> error + (circle list \<times> scene)" where
  "update frame s =
    (case update_scene frame s of
       Inl err \<Rightarrow> Inl err
     | Inr s' \<Rightarrow>
        Inr (map (\<lambda>(circle, _, _, _, _, _). circle) (planets s') @
             map (\<lambda>(moon, _, _). moon)
               (concat (map (\<lambda>(_, _, _, _, _, planet_moons). planet_moons) (planets s'))),
             s'))"

text \<open>The animation driver calls \<open>update\<close> with one frame index after the other; an
  exception ends the run.\<close>

fun run :: "int list \<Rightarrow> scene \<Rightarrow> error + scene" where
  "run [] s = Inr s"
| "run (frame # frames) s =
    (case update frame s of
       Inl err \<Rightarrow> Inl err
     | Inr (artists, s') \<Rightarrow> run frames s')"

subsection \<open>Projections used in the statements\<close>

text \<open>The fields of a descriptor that the builder and the updater divide by.\<close>

definition eccentricity :: "planet_desc \<Rightarrow> real" where
  "eccentricity d = (case d of (name, r, size', color', period, e, num_moons) \<Rightarrow> e)"

definition orbital_period :: "planet_desc \<Rightarrow> int" where
  "orbital_period d = (case d of (name, r, size', color', period, e, num_moons) \<Rightarrow> period)"

text \<open>The static part of a moon and of a planet: everything but the drawn objects. For a
  descriptor, \<open>desc_params\<close> is the static part of the planet that lines 58 to 79 create
  from it.\<close>

definition moon_params :: "moon \<Rightarrow> real \<times> int" where
  "moon_params m = (case m of (moon, moon_orbit_radius, moon_period) \<Rightarrow> (moon_orbit_radius, moon_period))"

definition planet_params :: "planet \<Rightarrow> real \<times> real \<times> int \<times> (real \<times> int) list" where
  "planet_params p =
    (case p of (circle, label, a, e, period, planet_moons) \<Rightarrow>
      (a, e, period, map moon_params planet_moons))"

definition desc_params :: "planet_desc \<Rightarrow> real \<times> real \<times> int \<times> (real \<times> int) list" where
  "desc_params d =
    (case d of (name, r, size', color', period, e, num_moons) \<Rightarrow>
      (r / (1 - e), e, period, map (\<lambda>j. (size' * 2.5, 20 * (int j + 1))) [0..<nat num_moons]))"

text \<open>No period among the static parameters is zero; and the ranges the orbit formulas
  are meant for.\<close>

definition periods_nonzero :: "real \<times> real \<times> int \<times> (real \<times> int) list \<Rightarrow> bool" where
  "periods_nonzero q = (case q of (a, e, period, ms) \<Rightarrow> period \<noteq> 0 \<and> list_all (\<lambda>m. snd m \<noteq> 0) ms)"

definition well_formed :: "real \<times> real \<times> int \<times> (real \<times> int) list \<Rightarrow> bool" where
  "well_formed q =
    (case q of (a, e, period, ms) \<Rightarrow>
      0 \<le> e \<and> e < 1 \<and> 0 < a \<and> period \<noteq> 0 \<and> list_all (\<lambda>m. 0 < fst m \<and> snd m \<noteq> 0) ms)"

text \<open>The descriptors whose numbers stay inside the range of a double in every operation
  that can raise \<open>OverflowError\<close>: \<open>e**2\<close> is at most \<open>10^300\<close>, and the orbital period
  and the moon periods \<open>20 * (j + 1)\<close> convert to float.\<close>

definition within_float_range :: "planet_desc \<Rightarrow> bool" where
  "within_float_range d =
    (case d of (name, r, size', color', period, e, num_moons) \<Rightarrow>
      \<bar>e\<bar> \<le> 10 ^ 150 \<and> \<bar>period\<bar> \<le> 10 ^ 300 \<and> num_moons \<le> 10 ^ 6)"

text \<open>The star step as the specification words it, with both deltas taken from the position
  before the step. It is compared with \<open>star_step\<close>, the step of the source.\<close>

definition star_step_claimed :: "real \<times> real \<Rightarrow> real \<times> real" where
  "star_step_claimed s =
    (case s of (x, y) \<Rightarrow>
      let d = sqrt (x\<^sup>2 + y\<^sup>2);
          k = 0.001 * (12 - d) / (d + 0.1)
      in (x - k * y, y + k * x))"

section \<open>Properties\<close>

subsection \<open>The planet table\<close>

text \<open>C1 (as stated): the planet table contains exactly seven descriptors. The table of the
  source has eight entries, so its length is not seven.\<close>

theorem planet_data_length_not_seven: "length planet_data \<noteq> 7"
  by (simp add: planet_data_def)

text \<open>C1 (amended): the planet table contains exactly eight descriptors, one per modelled
  planet, Mercury to Neptune in this order.\<close>

theorem planet_data_eight_descriptors:
  "length planet_data = 8 \<and>
   map fst planet_data =
     [''Mercury'', ''Venus'', ''Earth'', ''Mars'', ''Jupiter'', ''Saturn'', ''Uranus'', ''Neptune'']"
  by (simp add: planet_data_def)

subsection \<open>Errors\<close>

lemma error_is_zero_division: "(err :: error) = ZeroDivisionError"
  by (cases err) simp

lemma not_Inr_iff_Inl: "(\<forall>v. x \<noteq> Inr v) \<longleftrightarrow> x = Inl ZeroDivisionError"
  by (cases x) (auto simp: error_is_zero_division)

subsection \<open>What the scene builder accepts and creates\<close>

lemma create_moons_params:
  "map moon_params (create_moons size' num_moons) =
   map (\<lambda>j. (size' * 2.5, 20 * (int j + 1))) [0..<nat num_moons]"
  by (simp add: create_moons_def moon_params_def Let_def)

lemma create_planet_Inr:
  "create_planet d = Inr p \<Longrightarrow> planet_params p = desc_params d"
  by (cases d) (auto simp: create_planet_def planet_params_def desc_params_def
      create_moons_params Let_def split: if_splits)

lemma create_planet_ok_iff:
  "(\<exists>p. create_planet d = Inr p) \<longleftrightarrow> eccentricity d \<noteq> 1"
  by (cases d) (auto simp: create_planet_def eccentricity_def Let_def)

lemma orbit_curve_ok_iff:
  "(\<exists>c. orbit_curve d = Inr c) \<longleftrightarrow> eccentricity d \<noteq> 1"
  by (cases d) (auto simp: orbit_curve_def eccentricity_def Let_def)

lemma create_planets_ok_iff:
  "(\<exists>ps. create_planets descs = Inr ps) \<longleftrightarrow> (\<forall>d\<in>set descs. eccentricity d \<noteq> 1)"
proof (induction descs)
  case Nil
  show ?case by simp
next
  case (Cons d descs)
  show ?case
  proof (cases "create_planet d")
    case (Inl err)
    then have "eccentricity d = 1" using create_planet_ok_iff [of d] by simp
    with Inl show ?thesis by simp
  next
    case (Inr p)
    then have "eccentricity d \<noteq> 1" using create_planet_ok_iff [of d] by blast
    with Inr Cons.IH show ?thesis
      by (cases "create_planets descs") auto
  qed
qed

lemma create_orbits_ok_iff:
  "(\<exists>cs. create_orbits descs = Inr cs) \<longleftrightarrow> (\<forall>d\<in>set descs. eccentricity d \<noteq> 1)"
proof (induction descs)
  case Nil
  show ?case by simp
next
  case (Cons d descs)
  show ?case
  proof (cases "orbit_curve d")
    case (Inl err)
    then have "eccentricity d = 1" using orbit_curve_ok_iff [of d] by simp
    with Inl show ?thesis by simp
  next
    case (Inr c)
    then have "eccentricity d \<noteq> 1" using orbit_curve_ok_iff [of d] by blast
    with Inr Cons.IH show ?thesis
      by (cases "create_orbits descs") auto
  qed
qed

lemma create_planets_params:
  "create_planets descs = Inr ps \<Longrightarrow> map planet_params ps = map desc_params descs"
  by (induction descs arbitrary: ps) (auto split: sum.splits dest: create_planet_Inr)

lemma build_scene_ok_iff:
  "(\<exists>s. build_scene descs stars0 = Inr s) \<longleftrightarrow> (\<forall>d\<in>set descs. eccentricity d \<noteq> 1)"
  using create_orbits_ok_iff [of descs] create_planets_ok_iff [of descs]
  by (auto simp: build_scene_def split: sum.splits)

lemma build_scene_params:
  "build_scene descs stars0 = Inr s \<Longrightarrow> map planet_params (planets s) = map desc_params descs"
  by (auto simp: build_scene_def split: sum.splits dest: create_planets_params)

lemma build_scene_stars:
  "build_scene descs stars0 = Inr s \<Longrightarrow> stars s = stars0"
  by (auto simp: build_scene_def split: sum.splits)

lemma planet_data_builds: "\<exists>s. build_scene planet_data stars0 = Inr s"
  by (simp add: build_scene_ok_iff planet_data_def eccentricity_def)

lemma planet_data_periods_nonzero:
  "list_all periods_nonzero (map desc_params planet_data)"
  by (simp add: planet_data_def desc_params_def periods_nonzero_def list_all_iff)

lemma planet_data_well_formed: "list_all well_formed (map desc_params planet_data)"
  by (simp add: planet_data_def desc_params_def well_formed_def list_all_iff)

lemma desc_periods_nonzero_iff:
  "periods_nonzero (desc_params d) \<longleftrightarrow> orbital_period d \<noteq> 0"
  by (cases d) (auto simp: periods_nonzero_def desc_params_def orbital_period_def list_all_iff)

subsection \<open>The updater keeps the static parameters\<close>

lemma update_moons_params:
  "update_moons frame xy ms = Inr ms' \<Longrightarrow> map moon_params ms' = map moon_params ms"
  by (induction frame xy ms arbitrary: ms' rule: update_moons.induct)
     (auto simp: moon_params_def split: sum.splits)

lemma update_planet_params:
  "update_planet frame p = Inr p' \<Longrightarrow> planet_params p' = planet_params p"
  by (cases p) (auto simp: update_planet_def planet_params_def Let_def
      split: sum.splits dest: update_moons_params)

lemma update_planets_params:
  "update_planets frame ps = Inr ps' \<Longrightarrow> map planet_params ps' = map planet_params ps"
  by (induction ps arbitrary: ps') (auto split: sum.splits dest: update_planet_params)

lemma update_scene_params:
  "update_scene frame s = Inr s' \<Longrightarrow> map planet_params (planets s') = map planet_params (planets s)"
  by (auto simp: update_scene_def split: sum.splits dest: update_planets_params)

lemma update_Inr:
  "update frame s = Inr (artists, s') \<Longrightarrow> update_scene frame s = Inr s'"
  by (auto simp: update_def split: sum.splits)

lemma run_params:
  "run frames s = Inr s' \<Longrightarrow> map planet_params (planets s') = map planet_params (planets s)"
proof (induction frames arbitrary: s)
  case Nil
  then show ?case by simp
next
  case (Cons f frames)
  then show ?case
    by (auto split: sum.splits dest!: update_Inr update_scene_params)
qed

lemma run_snoc:
  "run (frames @ [frame]) s =
    (case run frames s of Inl err \<Rightarrow> Inl err | Inr s' \<Rightarrow> update_scene frame s')"
  by (induction frames arbitrary: s) (auto simp: update_def split: sum.splits)

subsection \<open>When the updater raises\<close>

lemma moon_position_ok_iff:
  "(\<exists>mxy. moon_position frame xy moon_orbit_radius moon_period = Inr mxy) \<longleftrightarrow> moon_period \<noteq> 0"
  by (simp add: moon_position_def orbit_angle_def)

lemma planet_position_ok_iff:
  "(\<exists>xy. planet_position frame a e period = Inr xy) \<longleftrightarrow> period \<noteq> 0"
  by (simp add: planet_position_def orbit_angle_def)

lemma update_moons_ok_iff:
  "(\<exists>ms'. update_moons frame xy ms = Inr ms') \<longleftrightarrow>
   list_all (\<lambda>m. snd m \<noteq> 0) (map moon_params ms)"
proof (induction ms)
  case Nil
  show ?case by simp
next
  case (Cons m ms)
  obtain moon moon_orbit_radius moon_period
    where m: "m = (moon, moon_orbit_radius, moon_period)" by (cases m)
  show ?case
  proof (cases "moon_position frame xy moon_orbit_radius moon_period")
    case (Inl err)
    then have "moon_period = 0"
      using moon_position_ok_iff [of frame xy moon_orbit_radius moon_period] by simp
    with Inl show ?thesis by (simp add: m moon_params_def)
  next
    case (Inr mxy)
    then have "moon_period \<noteq> 0"
      using moon_position_ok_iff [of frame xy moon_orbit_radius moon_period] by blast
    with Inr Cons.IH show ?thesis
      by (cases "update_moons frame xy ms") (auto simp: m moon_params_def)
  qed
qed

lemma update_planet_ok_iff:
  "(\<exists>p'. update_planet frame p = Inr p') \<longleftrightarrow> periods_nonzero (planet_params p)"
proof -
  obtain circle label a e period planet_moons
    where p: "p = (circle, label, a, e, period, planet_moons)" by (cases p)
  show ?thesis
  proof (cases "planet_position frame a e period")
    case (Inl err)
    then have "period = 0" using planet_position_ok_iff [of frame a e period] by simp
    with Inl show ?thesis
      by (simp add: p update_planet_def planet_params_def periods_nonzero_def)
  next
    case (Inr xy)
    then have "period \<noteq> 0" using planet_position_ok_iff [of frame a e period] by blast
    with Inr update_moons_ok_iff [of frame xy planet_moons] show ?thesis
      by (cases "update_moons frame xy planet_moons")
         (auto simp: p update_planet_def planet_params_def periods_nonzero_def Let_def)
  qed
qed

lemma update_planets_ok_iff:
  "(\<exists>ps'. update_planets frame ps = Inr ps') \<longleftrightarrow>
   list_all periods_nonzero (map planet_params ps)"
proof (induction ps)
  case Nil
  show ?case by simp
next
  case (Cons p ps)
  show ?case
  proof (cases "update_planet frame p")
    case (Inl err)
    then have "\<not> periods_nonzero (planet_params p)"
      using update_planet_ok_iff [of frame p] by simp
    with Inl show ?thesis by simp
  next
    case (Inr p')
    then have "periods_nonzero (planet_params p)"
      using update_planet_ok_iff [of frame p] by blast
    with Inr Cons.IH show ?thesis
      by (cases "update_planets frame ps") auto
  qed
qed

lemma update_scene_ok_iff:
  "(\<exists>s'. update_scene frame s = Inr s') \<longleftrightarrow> list_all periods_nonzero (map planet_params (planets s))"
  using update_planets_ok_iff [of frame "planets s"]
  by (cases "update_planets frame (planets s)") (auto simp: update_scene_def)

lemma run_ok:
  "list_all periods_nonzero (map planet_params (planets s)) \<Longrightarrow> \<exists>s'. run frames s = Inr s'"
proof (induction frames arbitrary: s)
  case Nil
  show ?case by simp
next
  case (Cons f frames)
  from Cons.prems obtain s1 where s1: "update_scene f s = Inr s1"
    using update_scene_ok_iff [of f s] by blast
  have "list_all periods_nonzero (map planet_params (planets s1))"
    using Cons.prems update_scene_params [OF s1] by simp
  from Cons.IH [OF this] obtain s' where "run frames s1 = Inr s'" by blast
  then show ?case using s1 by (simp add: update_def)
qed

subsection \<open>What one call of the updater stores\<close>

lemma update_moons_centers:
  "update_moons frame xy ms = Inr ms' \<Longrightarrow> (moon, moon_orbit_radius, moon_period) \<in> set ms' \<Longrightarrow>
   moon_position frame xy moon_orbit_radius moon_period = Inr (center moon)"
  by (induction frame xy ms arbitrary: ms' rule: update_moons.induct)
     (auto split: sum.splits)

lemma update_planet_centers:
  assumes "update_planet frame p = Inr (circle, label, a, e, period, planet_moons)"
  shows "planet_position frame a e period = Inr (center circle)"
    and "(moon, moon_orbit_radius, moon_period) \<in> set planet_moons \<Longrightarrow>
         moon_position frame (center circle) moon_orbit_radius moon_period = Inr (center moon)"
  using assms
  by (cases p; auto simp: update_planet_def Let_def split: sum.splits dest: update_moons_centers)+

lemma update_planets_member:
  "update_planets frame ps = Inr ps' \<Longrightarrow> p' \<in> set ps' \<Longrightarrow>
   \<exists>p\<in>set ps. update_planet frame p = Inr p'"
  by (induction ps arbitrary: ps') (auto split: sum.splits)

lemma update_scene_member:
  "update_scene frame s = Inr s' \<Longrightarrow> p' \<in> set (planets s') \<Longrightarrow>
   \<exists>p\<in>set (planets s). update_planet frame p = Inr p'"
  by (auto simp: update_scene_def split: sum.splits dest: update_planets_member)

lemma update_planets_positions:
  "update_planets frame ps = Inr ps' \<Longrightarrow>
   map (\<lambda>(circle, label, a, e, period, planet_moons). Inr (center circle)) ps' =
   map (\<lambda>(circle, label, a, e, period, planet_moons). planet_position frame a e period) ps"
proof (induction ps arbitrary: ps')
  case Nil
  then show ?case by simp
next
  case (Cons p ps)
  from Cons.prems obtain p' rest' where p': "update_planet frame p = Inr p'"
    and rest': "update_planets frame ps = Inr rest'" and ps': "ps' = p' # rest'"
    by (auto split: sum.splits)
  obtain circle label a e period planet_moons
    where q: "p' = (circle, label, a, e, period, planet_moons)" by (cases p')
  have "planet_params p' = planet_params p" using p' by (rule update_planet_params)
  then obtain circle0 label0 planet_moons0
    where p: "p = (circle0, label0, a, e, period, planet_moons0)"
    by (cases p) (simp add: q planet_params_def)
  have "planet_position frame a e period = Inr (center circle)"
    using p' unfolding q by (rule update_planet_centers)
  then show ?case using Cons.IH [OF rest'] by (simp add: ps' p q)
qed

lemma star_step_explicit:
  "star_step (x, y) =
    (let d = sqrt (x\<^sup>2 + y\<^sup>2);
         k = 0.001 * (12 - d) / (d + 0.1);
         x' = x - k * y
     in (x', y + k * x'))"
  by (simp add: star_step_def star_distance_def Let_def)

lemma update_scene_stars:
  "update_scene frame s = Inr s' \<Longrightarrow>
   stars s' = (if frame mod 5 = 0 then map star_step (stars s) else stars s)"
  by (auto simp: update_scene_def split: sum.splits)

lemma run_stars:
  "run frames s = Inr s' \<Longrightarrow>
   stars s' = map (star_step ^^ length (filter (\<lambda>f. f mod 5 = 0) frames)) (stars s)"
proof (induction frames arbitrary: s)
  case Nil
  then show ?case by simp
next
  case (Cons f frames)
  from Cons.prems obtain s1 where s1: "update_scene f s = Inr s1" and r: "run frames s1 = Inr s'"
    by (auto simp: update_def split: sum.splits)
  show ?case
    using Cons.IH [OF r] update_scene_stars [OF s1]
    by (simp add: funpow_swap1)
qed

subsection \<open>Geometry of the orbit model\<close>

lemma radial_denominator_lower:
  assumes "0 \<le> e"
  shows "1 - e \<le> radial_denominator e angle"
proof -
  have "- 1 \<le> cos angle" by simp
  then have "e * (- 1) \<le> e * cos angle"
    using assms by (rule mult_left_mono)
  then show ?thesis by (simp add: radial_denominator_def)
qed

lemma planet_position_finite:
  assumes "0 \<le> e" "e < 1" "period \<noteq> 0"
  shows "\<exists>x y. planet_position frame a e period = Inr (Some (x, y))"
proof -
  have "0 < radial_denominator e (2 * pi * of_int frame / of_int period)"
    using radial_denominator_lower [OF assms(1)] assms(2)
    by (meson diff_gt_0_iff_gt less_le_trans)
  then show ?thesis
    using assms(3) by (simp add: planet_position_def orbit_angle_def radial_distance_def)
qed

lemma planet_position_frame_0:
  assumes "period \<noteq> 0" "e \<noteq> - 1"
  shows "orbit_angle 0 period = Inr 0"
    and "radial_distance a e 0 = Some (a * (1 - e))"
    and "planet_position 0 a e period = Inr (Some (a * (1 - e) - a * e, 0))"
proof -
  show angle: "orbit_angle 0 period = Inr 0"
    using assms(1) by (simp add: orbit_angle_def)
  have ne: "1 + e \<noteq> 0" using assms(2) by linarith
  have h: "a * (1 - e\<^sup>2) = (a * (1 - e)) * (1 + e)"
    by (simp add: power2_eq_square algebra_simps)
  have "a * (1 - e\<^sup>2) / (1 + e) = a * (1 - e)"
    by (metis h ne nonzero_mult_div_cancel_right)
  then show dist: "radial_distance a e 0 = Some (a * (1 - e))"
    using ne by (simp add: radial_distance_def radial_denominator_def)
  show "planet_position 0 a e period = Inr (Some (a * (1 - e) - a * e, 0))"
    by (simp add: planet_position_def angle dist)
qed

subsection \<open>Startup validation\<close>

text \<open>C2 (as stated): a descriptor with period zero makes the program refuse to start.
  With the Mercury descriptor changed to period 0 the scene is built, and the first call of
  the updater raises ZeroDivisionError.\<close>

theorem zero_period_not_refused:
  "build_scene [(''Mercury'', 1.5, 0.08, ''darkgoldenrod'', 0, 0.2, 0)] [] =
     Inr \<lparr>planets =
            [(\<lparr>center = Some (0, 0), radius = 0.08, color = ''darkgoldenrod''\<rparr>,
              \<lparr>label_text = ''Mercury'', label_position = Some (0, 0)\<rparr>,
              15 / 8, 0.2, 0, [])],
          stars = []\<rparr> \<and>
   update_scene 0
     \<lparr>planets =
        [(\<lparr>center = Some (0, 0), radius = 0.08, color = ''darkgoldenrod''\<rparr>,
          \<lparr>label_text = ''Mercury'', label_position = Some (0, 0)\<rparr>,
          15 / 8, 0.2, 0, [])],
      stars = []\<rparr> = Inl ZeroDivisionError"
  by (simp add: build_scene_def orbit_curve_def create_planet_def create_moons_def
      update_scene_def update_planet_def planet_position_def orbit_angle_def Let_def)

text \<open>An eccentricity outside the range is stored as it is; with \<open>e = -1\<close> the radial
  denominator vanishes at frame 0 and the stored position is not finite.\<close>

lemma negative_eccentricity_not_refused:
  "build_scene [(''Mercury'', 1.5, 0.08, ''darkgoldenrod'', 88, - 1, 0)] [] =
     Inr \<lparr>planets =
            [(\<lparr>center = Some (0, 0), radius = 0.08, color = ''darkgoldenrod''\<rparr>,
              \<lparr>label_text = ''Mercury'', label_position = Some (0, 0)\<rparr>,
              3 / 4, - 1, 88, [])],
          stars = []\<rparr> \<and>
   update_scene 0
     \<lparr>planets =
        [(\<lparr>center = Some (0, 0), radius = 0.08, color = ''darkgoldenrod''\<rparr>,
          \<lparr>label_text = ''Mercury'', label_position = Some (0, 0)\<rparr>,
          3 / 4, - 1, 88, [])],
      stars = []\<rparr> =
     Inr \<lparr>planets =
            [(\<lparr>center = None, radius = 0.08, color = ''darkgoldenrod''\<rparr>,
              \<lparr>label_text = ''Mercury'', label_position = None\<rparr>,
              3 / 4, - 1, 88, [])],
          stars = []\<rparr>"
  by (simp add: build_scene_def orbit_curve_def create_planet_def create_moons_def
      update_scene_def update_planet_def planet_position_def orbit_angle_def Let_def
      radial_distance_def radial_denominator_def)

lemma stored_from_params:
  "map (\<lambda>(circle, label, a, e, period, planet_moons). (e, period)) ps =
   map (\<lambda>(a, e, period, ms). (e, period)) (map planet_params ps)"
  by (simp add: planet_params_def case_prod_unfold)

lemma stored_from_desc:
  "map (\<lambda>(a, e, period, ms). (e, period)) (map desc_params descs) =
   map (\<lambda>(name, r, size', color', period, e, num_moons). (e, period)) descs"
  by (simp add: desc_params_def case_prod_unfold)

text \<open>C2 (amended): the program validates nothing at start-up. For descriptors and frames
  inside the range of a double, the scene builder raises ZeroDivisionError exactly when some
  eccentricity equals 1 (the division \<open>r / (1 - e)\<close>), and builds the scene exactly when none
  does; the built scene stores every eccentricity and period unchanged, also a negative
  period or an eccentricity outside [0, 1); and a call of the updater raises
  ZeroDivisionError exactly when some orbital period is 0, and returns exactly when none
  is.\<close>

theorem build_scene_validation:
  assumes "list_all within_float_range descs" and "\<bar>frame\<bar> \<le> 10 ^ 300"
  shows "(build_scene descs stars0 = Inl ZeroDivisionError \<longleftrightarrow>
            (\<exists>d\<in>set descs. eccentricity d = 1)) \<and>
         ((\<exists>s0. build_scene descs stars0 = Inr s0) \<longleftrightarrow>
            (\<forall>d\<in>set descs. eccentricity d \<noteq> 1)) \<and>
         (build_scene descs stars0 = Inr s \<longrightarrow>
            map (\<lambda>(circle, label, a, e, period, planet_moons). (e, period)) (planets s) =
              map (\<lambda>(name, r, size', color', period, e, num_moons). (e, period)) descs \<and>
            (update_scene frame s = Inl ZeroDivisionError \<longleftrightarrow>
               (\<exists>d\<in>set descs. orbital_period d = 0)) \<and>
            ((\<exists>s'. update_scene frame s = Inr s') \<longleftrightarrow>
               (\<forall>d\<in>set descs. orbital_period d \<noteq> 0)))"
proof (intro conjI impI)
  show ok: "(\<exists>s0. build_scene descs stars0 = Inr s0) \<longleftrightarrow> (\<forall>d\<in>set descs. eccentricity d \<noteq> 1)"
    by (rule build_scene_ok_iff)
  show "build_scene descs stars0 = Inl ZeroDivisionError \<longleftrightarrow> (\<exists>d\<in>set descs. eccentricity d = 1)"
    using ok not_Inr_iff_Inl [of "build_scene descs stars0"] by blast
next
  assume b: "build_scene descs stars0 = Inr s"
  have m: "map planet_params (planets s) = map desc_params descs"
    using b by (rule build_scene_params)
  show "map (\<lambda>(circle, label, a, e, period, planet_moons). (e, period)) (planets s) =
      map (\<lambda>(name, r, size', color', period, e, num_moons). (e, period)) descs"
    using m by (simp only: stored_from_params stored_from_desc)
  have "list_all periods_nonzero (map planet_params (planets s)) \<longleftrightarrow>
      (\<forall>d\<in>set descs. orbital_period d \<noteq> 0)"
    by (simp add: m list_all_iff desc_periods_nonzero_iff)
  then show ok: "(\<exists>s'. update_scene frame s = Inr s') \<longleftrightarrow> (\<forall>d\<in>set descs. orbital_period d \<noteq> 0)"
    using update_scene_ok_iff [of frame s] by simp
  show "update_scene frame s = Inl ZeroDivisionError \<longleftrightarrow> (\<exists>d\<in>set descs. orbital_period d = 0)"
    using ok not_Inr_iff_Inl [of "update_scene frame s"] by blast
qed

text \<open>The theorem at a malformed descriptor inside the range: a negative period and an
  eccentricity above 1 are built and updated without an error.\<close>

theorem build_scene_validation_witness:
  "\<exists>s s'. build_scene [(''Mercury'', 1.5, 0.08, ''darkgoldenrod'', - 88, 1.5, 0)] [] = Inr s \<and>
          map (\<lambda>(circle, label, a, e, period, planet_moons). (e, period)) (planets s) =
            [(1.5, - 88)] \<and>
          update_scene 3 s = Inr s'"
proof -
  let ?descs = "[(''Mercury'', 1.5, 0.08, ''darkgoldenrod'', - 88, 1.5, 0)] :: planet_desc list"
  have range: "list_all within_float_range ?descs"
    by (simp add: within_float_range_def)
  have frame: "\<bar>3 :: int\<bar> \<le> 10 ^ 300" by simp
  have e: "\<forall>d\<in>set ?descs. eccentricity d \<noteq> 1"
    by (simp add: eccentricity_def)
  have p: "\<forall>d\<in>set ?descs. orbital_period d \<noteq> 0"
    by (simp add: orbital_period_def)
  obtain s where b: "build_scene ?descs [] = Inr s"
    using build_scene_validation [OF range frame, of "[]"] e by blast
  have st: "map (\<lambda>(circle, label, a, e, period, planet_moons). (e, period)) (planets s) =
      map (\<lambda>(name, r, size', color', period, e, num_moons). (e, period)) ?descs"
    using build_scene_validation [OF range frame, of "[]" s] b by blast
  obtain s' where u: "update_scene 3 s = Inr s'"
    using build_scene_validation [OF range frame, of "[]" s] b p by blast
  have "map (\<lambda>(circle, label, a, e, period, planet_moons). (e, period)) (planets s) = [(1.5, - 88)]"
    using st by simp
  with b u show ?thesis by (intro exI conjI)
qed

subsection \<open>Starfield drift\<close>

text \<open>C3 (as stated): on a frame divisible by 5 a star at (x, y) moves to
  (x - k*y, y + k*x), both deltas computed from the position before the step, and stars
  further from the centre move less. Both parts fail. At frame 0 the star at (0, 1) has
  k = 1/100; the source moves it to (-1/100, 9999/10000), the stated formula gives
  (-1/100, 1). And of the stars at (0, 0), (1, 0), (13, 0) and (16, 0), at distances 0, 1, 13
  and 16, the first does not move and the second moves by 1/100, the third moves by 13/13100
  and the fourth, further out, by the larger 16/4025.\<close>

theorem star_drift_as_stated_fails:
  "update_scene 0 \<lparr>planets = [], stars = [(0, 1)]\<rparr> =
     Inr \<lparr>planets = [], stars = [(- (1 / 100), 9999 / 10000)]\<rparr> \<and>
   map star_step_claimed [(0, 1)] = [(- (1 / 100), 1)] \<and>
   update_scene 0 \<lparr>planets = [], stars = [(0, 1)]\<rparr> \<noteq>
     Inr \<lparr>planets = [], stars = map star_step_claimed [(0, 1)]\<rparr> \<and>
   update_scene 0 \<lparr>planets = [], stars = [(0, 0), (1, 0), (13, 0), (16, 0)]\<rparr> =
     Inr \<lparr>planets = [],
          stars = [(0, 0), (1, 1 / 100), (13, - (13 / 13100)), (16, - (16 / 4025))]\<rparr> \<and>
   star_distance (0, 0) = 0 \<and> star_distance (1, 0) = 1 \<and>
   star_distance (13, 0) = 13 \<and> star_distance (16, 0) = 16 \<and>
   (0 :: real) < 1 / 100 \<and> (13 / 13100 :: real) < 16 / 4025"
proof -
  have s13: "sqrt (169 :: real) = 13" using real_sqrt_abs [of 13] by simp
  have s16: "sqrt (256 :: real) = 16" using real_sqrt_abs [of 16] by simp
  show ?thesis
    by (simp add: update_scene_def star_step_def star_distance_def star_step_claimed_def
        Let_def s13 s16)
qed

text \<open>C3 (amended): on every frame divisible by 5, and on no other frame, a call of the
  updater that returns moves each star (x, y), with d its distance from the origin before
  the step and k = 0.001*(12 - d)/(d + 0.1), to (x', y + k*x') where x' = x - k*y is the new
  x coordinate: the x delta is computed from the position before the step, the y delta from
  the already updated x. The steps accumulate over a run, one per frame divisible by 5.\<close>

theorem star_drift:
  "(update_scene frame s = Inr s' \<longrightarrow>
      stars s' =
        (if frame mod 5 = 0
         then map (\<lambda>(x, y).
                let d = sqrt (x\<^sup>2 + y\<^sup>2);
                    k = 0.001 * (12 - d) / (d + 0.1);
                    x' = x - k * y
                in (x', y + k * x')) (stars s)
         else stars s)) \<and>
   (run frames s = Inr s'' \<longrightarrow>
      stars s'' = map (star_step ^^ length (filter (\<lambda>f. f mod 5 = 0) frames)) (stars s))"
proof (intro conjI impI)
  assume u: "update_scene frame s = Inr s'"
  have "star_step = (\<lambda>(x, y).
                let d = sqrt (x\<^sup>2 + y\<^sup>2);
                    k = 0.001 * (12 - d) / (d + 0.1);
                    x' = x - k * y
                in (x', y + k * x'))"
    by (rule ext) (simp only: split_paired_all case_prod_conv star_step_explicit)
  then show "stars s' =
        (if frame mod 5 = 0
         then map (\<lambda>(x, y).
                let d = sqrt (x\<^sup>2 + y\<^sup>2);
                    k = 0.001 * (12 - d) / (d + 0.1);
                    x' = x - k * y
                in (x', y + k * x')) (stars s)
         else stars s)"
    using update_scene_stars [OF u] by simp
next
  assume "run frames s = Inr s''"
  then show "stars s'' = map (star_step ^^ length (filter (\<lambda>f. f mod 5 = 0) frames)) (stars s)"
    by (rule run_stars)
qed

theorem star_drift_witness:
  "update_scene 5 \<lparr>planets = [], stars = [(3, 4)]\<rparr> =
     Inr \<lparr>planets = [], stars = [(3818 / 1275, 13018363 / 3251250)]\<rparr> \<and>
   update_scene 6 \<lparr>planets = [], stars = [(3, 4)]\<rparr> =
     Inr \<lparr>planets = [], stars = [(3, 4)]\<rparr> \<and>
   run [5, 6, 10] \<lparr>planets = [], stars = [(3, 4)]\<rparr> =
     Inr \<lparr>planets = [], stars = [star_step (star_step (3, 4))]\<rparr>"
proof -
  let ?s = "\<lparr>planets = [], stars = [(3, 4)]\<rparr>"
  have sq: "sqrt (25::real) = 5" using real_sqrt_abs [of 5] by simp
  have u5: "update_scene 5 ?s = Inr (?s\<lparr>stars := map star_step [(3, 4)]\<rparr>)"
    by (simp add: update_scene_def)
  have u6: "update_scene 6 ?s = Inr ?s"
    by (simp add: update_scene_def)
  obtain s'' where r: "run [5, 6, 10] ?s = Inr s''" and p: "planets s'' = []"
    by (simp add: update_def update_scene_def)
  have a: "stars (?s\<lparr>stars := map star_step [(3, 4)]\<rparr>) =
      [(3818 / 1275, 13018363 / 3251250)]"
    using star_drift [where frame = 5 and s = ?s
        and s' = "?s\<lparr>stars := map star_step [(3, 4)]\<rparr>"] u5
    by (simp add: sq Let_def)
  have b: "stars s'' = [star_step (star_step (3, 4))]"
    using star_drift [where frames = "[5, 6, 10]" and s = ?s and s'' = s''] r
    by (simp add: numeral_2_eq_2)
  show ?thesis
  proof (intro conjI)
    show "update_scene 5 ?s = Inr \<lparr>planets = [], stars = [(3818 / 1275, 13018363 / 3251250)]\<rparr>"
      using u5 a by simp
    show "update_scene 6 ?s = Inr ?s" by (rule u6)
    show "run [5, 6, 10] ?s = Inr \<lparr>planets = [], stars = [star_step (star_step (3, 4))]\<rparr>"
      using r p b by (cases s'') simp
  qed
qed

subsection \<open>Scenes of a run\<close>

lemma reachable_params:
  assumes "build_scene descs stars0 = Inr s0" and "run frames s0 = Inr s"
  shows "map planet_params (planets s) = map desc_params descs"
  using run_params [OF assms(2)] build_scene_params [OF assms(1)] by simp

lemma planet_data_run_ok:
  assumes "build_scene planet_data stars0 = Inr s0"
  shows "\<exists>s. run frames s0 = Inr s"
proof (rule run_ok)
  show "list_all periods_nonzero (map planet_params (planets s0))"
    using build_scene_params [OF assms] planet_data_periods_nonzero by simp
qed

lemma reachable_well_formed:
  assumes "build_scene planet_data stars0 = Inr s0" and "run frames s0 = Inr s"
    and "p \<in> set (planets s)"
  shows "well_formed (planet_params p)"
proof -
  have "planet_params p \<in> set (map planet_params (planets s))"
    using assms(3) by simp
  then have "planet_params p \<in> set (map desc_params planet_data)"
    using reachable_params [OF assms(1,2)] by simp
  then show ?thesis
    using planet_data_well_formed by (simp only: list_all_iff)
qed

lemma reachable_nth:
  assumes "build_scene descs stars0 = Inr s0" and "run frames s0 = Inr s"
    and "i < length descs"
  shows "planets s ! i \<in> set (planets s)"
    and "planet_params (planets s ! i) = desc_params (descs ! i)"
proof -
  have m: "map planet_params (planets s) = map desc_params descs"
    using assms(1,2) by (rule reachable_params)
  then have "length (planets s) = length descs"
    using length_map by metis
  then have i: "i < length (planets s)" using assms(3) by simp
  then show "planets s ! i \<in> set (planets s)" by simp
  have "map planet_params (planets s) ! i = map desc_params descs ! i"
    using m by simp
  then show "planet_params (planets s ! i) = desc_params (descs ! i)"
    using i assms(3) by simp
qed

subsection \<open>Purity of the planet position\<close>

lemma positions_from_params:
  "map (\<lambda>(circle, label, a, e, period, planet_moons). planet_position frame a e period) ps =
   map (\<lambda>(a, e, period, ms). planet_position frame a e period) (map planet_params ps)"
  by (simp add: planet_params_def case_prod_unfold)

text \<open>C7: the planet positions stored by a call of the updater are a function of the frame
  of that call and of the static orbital parameters (a, e, period) alone: after any run that
  ends with the call for \<open>frame\<close>, from any scene whatever its stored positions and
  stars, each planet's position is \<open>planet_position frame a e period\<close>. Neither the
  earlier frames of the run nor the state before it enter the result.\<close>

theorem planet_position_pure:
  assumes "run (frames @ [frame]) s = Inr s'"
  shows "map (\<lambda>(circle, label, a, e, period, planet_moons). Inr (center circle)) (planets s') =
         map (\<lambda>(circle, label, a, e, period, planet_moons). planet_position frame a e period)
           (planets s)"
proof -
  obtain s1 where r: "run frames s = Inr s1" and u: "update_scene frame s1 = Inr s'"
    using assms by (auto simp: run_snoc split: sum.splits)
  have "update_planets frame (planets s1) = Inr (planets s')"
    using u by (auto simp: update_scene_def split: sum.splits)
  then have "map (\<lambda>(circle, label, a, e, period, planet_moons). Inr (center circle)) (planets s') =
      map (\<lambda>(circle, label, a, e, period, planet_moons). planet_position frame a e period)
        (planets s1)"
    by (rule update_planets_positions)
  also have "\<dots> = map (\<lambda>(circle, label, a, e, period, planet_moons).
      planet_position frame a e period) (planets s)"
    using run_params [OF r] by (simp only: positions_from_params)
  finally show ?thesis .
qed

theorem planet_position_pure_witness:
  "\<exists>s'. run ([3] @ [0])
          \<lparr>planets = [(\<lparr>center = Some (7, 7), radius = 1, color = ''red''\<rparr>,
                       \<lparr>label_text = ''P'', label_position = None\<rparr>, 2, 0, 4, [])],
           stars = []\<rparr> = Inr s' \<and>
        map (\<lambda>(circle, label, a, e, period, planet_moons). Inr (center circle)) (planets s') =
          [Inr (Some (2, 0)) :: error + position]"
proof -
  let ?s = "\<lparr>planets = [(\<lparr>center = Some (7, 7), radius = 1, color = ''red''\<rparr>,
                       \<lparr>label_text = ''P'', label_position = None\<rparr>, 2, 0, 4, [])],
           stars = []\<rparr>"
  have "list_all periods_nonzero (map planet_params (planets ?s))"
    by (simp add: planet_params_def periods_nonzero_def)
  then obtain s' where r: "run ([3] @ [0]) ?s = Inr s'"
    using run_ok by blast
  have "planet_position 0 2 0 4 = Inr (Some (2, 0))"
    by (simp add: planet_position_def orbit_angle_def radial_distance_def radial_denominator_def)
  then show ?thesis
    using planet_position_pure [OF r] r by simp
qed

subsection \<open>Orbit parameters\<close>

lemma orbit_shape_from_params:
  "map (\<lambda>(circle, label, a, e, period, planet_moons). (a, e)) ps =
   map (\<lambda>(a, e, period, ms). (a, e)) (map planet_params ps)"
  by (simp add: planet_params_def case_prod_unfold)

lemma orbit_shape_from_desc:
  "map (\<lambda>(a, e, period, ms). (a, e)) (map desc_params descs) =
   map (\<lambda>(name, r, size', color', period, e, num_moons). (r / (1 - e), e)) descs"
  by (simp add: desc_params_def case_prod_unfold)

text \<open>C8: every descriptor of the planet table has 0 \<le> e < 1 and a positive semi-major
  axis r / (1 - e); the table builds a scene, every run from it returns, and in every scene
  of the run each planet still carries the a = r / (1 - e) and e of its descriptor, with
  0 \<le> e < 1 and a > 0.\<close>

theorem orbit_parameters_invariant:
  "(\<forall>(name, r, size', color', period, e, num_moons)\<in>set planet_data.
      0 \<le> e \<and> e < 1 \<and> 0 < r / (1 - e)) \<and>
   (\<exists>s0. build_scene planet_data stars0 = Inr s0 \<and>
      (\<forall>frames. \<exists>s. run frames s0 = Inr s \<and>
         map (\<lambda>(circle, label, a, e, period, planet_moons). (a, e)) (planets s) =
           map (\<lambda>(name, r, size', color', period, e, num_moons). (r / (1 - e), e)) planet_data \<and>
         (\<forall>(circle, label, a, e, period, planet_moons)\<in>set (planets s).
            0 \<le> e \<and> e < 1 \<and> 0 < a)))"
proof (intro conjI)
  show "\<forall>(name, r, size', color', period, e, num_moons)\<in>set planet_data.
      0 \<le> e \<and> e < 1 \<and> 0 < r / (1 - e)"
    by (simp add: planet_data_def)
next
  obtain s0 where b: "build_scene planet_data stars0 = Inr s0"
    using planet_data_builds by blast
  have "\<exists>s. run frames s0 = Inr s \<and>
         map (\<lambda>(circle, label, a, e, period, planet_moons). (a, e)) (planets s) =
           map (\<lambda>(name, r, size', color', period, e, num_moons). (r / (1 - e), e)) planet_data \<and>
         (\<forall>(circle, label, a, e, period, planet_moons)\<in>set (planets s).
            0 \<le> e \<and> e < 1 \<and> 0 < a)" for frames
  proof -
    obtain s where r: "run frames s0 = Inr s"
      using planet_data_run_ok [OF b] by blast
    have "map (\<lambda>(circle, label, a, e, period, planet_moons). (a, e)) (planets s) =
        map (\<lambda>(name, r, size', color', period, e, num_moons). (r / (1 - e), e)) planet_data"
      using reachable_params [OF b r]
      by (simp only: orbit_shape_from_params orbit_shape_from_desc)
    moreover have "\<forall>(circle, label, a, e, period, planet_moons)\<in>set (planets s).
        0 \<le> e \<and> e < 1 \<and> 0 < a"
    proof (clarify, intro conjI)
      fix circle label a e period planet_moons
      assume "(circle, label, a, e, period, planet_moons) \<in> set (planets s)"
      then have "well_formed (planet_params (circle, label, a, e, period, planet_moons))"
        using b r by (simp add: reachable_well_formed)
      then show "0 \<le> e" "e < 1" "0 < a"
        by (simp_all add: well_formed_def planet_params_def)
    qed
    ultimately show ?thesis using r by blast
  qed
  then show "\<exists>s0. build_scene planet_data stars0 = Inr s0 \<and>
      (\<forall>frames. \<exists>s. run frames s0 = Inr s \<and>
         map (\<lambda>(circle, label, a, e, period, planet_moons). (a, e)) (planets s) =
           map (\<lambda>(name, r, size', color', period, e, num_moons). (r / (1 - e), e)) planet_data \<and>
         (\<forall>(circle, label, a, e, period, planet_moons)\<in>set (planets s).
            0 \<le> e \<and> e < 1 \<and> 0 < a))"
    using b by blast
qed

theorem orbit_parameters_invariant_witness:
  "\<exists>s0 s circle label a e period planet_moons.
     build_scene planet_data [] = Inr s0 \<and>
     run [0, 1, 2] s0 = Inr s \<and>
     planets s ! 0 = (circle, label, a, e, period, planet_moons) \<and>
     a = 1.5 / (1 - 0.2) \<and> e = 0.2 \<and>
     0 \<le> e \<and> e < 1 \<and> 0 < a"
proof -
  obtain s0 s where b: "build_scene planet_data [] = Inr s0"
    and r: "run [0, 1, 2] s0 = Inr s"
    and m: "map (\<lambda>(circle, label, a, e, period, planet_moons). (a, e)) (planets s) =
           map (\<lambda>(name, r, size', color', period, e, num_moons). (r / (1 - e), e)) planet_data"
    and w: "\<forall>(circle, label, a, e, period, planet_moons)\<in>set (planets s). 0 \<le> e \<and> e < 1 \<and> 0 < a"
    using orbit_parameters_invariant [of "[]"] by blast
  obtain circle label a e period planet_moons
    where p: "planets s ! 0 = (circle, label, a, e, period, planet_moons)"
    by (cases "planets s ! 0")
  have "length (planets s) = 8"
    using arg_cong [OF m, of length] by (simp add: planet_data_def)
  then have mem: "planets s ! 0 \<in> set (planets s)" by simp
  have "map (\<lambda>(circle, label, a, e, period, planet_moons). (a, e)) (planets s) ! 0 = (1.5 / (1 - 0.2), 0.2)"
    by (simp only: m) (simp add: planet_data_def)
  then have ae: "a = 1.5 / (1 - 0.2)" "e = 0.2"
    using \<open>length (planets s) = 8\<close> p by simp_all
  have "0 \<le> e \<and> e < 1 \<and> 0 < a"
    using w mem p by auto
  then show ?thesis using b r p ae by blast
qed

subsection \<open>Moon periods\<close>

lemma moon_periods_from_params:
  "map (\<lambda>(moon, moon_orbit_radius, moon_period). moon_period) ms = map snd (map moon_params ms)"
  by (simp add: moon_params_def case_prod_unfold)

lemma distinct_moon_periods: "distinct (map (\<lambda>j. 20 * (int j + 1)) [0..<n])"
  by (simp add: distinct_map inj_on_def)

text \<open>C9: in a scene built from any descriptor list, and after any run from it, the moon at
  0-based index j of each planet's moon list has the period 20 * (j + 1) frames; so the
  periods of one planet's moons are pairwise distinct, and they never change.\<close>

theorem moon_periods:
  assumes "build_scene descs stars0 = Inr s0"
    and "run frames s0 = Inr s"
    and "(circle, label, a, e, period, planet_moons) \<in> set (planets s)"
  shows "map (\<lambda>(moon, moon_orbit_radius, moon_period). moon_period) planet_moons =
           map (\<lambda>j. 20 * (int j + 1)) [0..<length planet_moons] \<and>
         distinct (map (\<lambda>(moon, moon_orbit_radius, moon_period). moon_period) planet_moons)"
proof -
  let ?p = "(circle, label, a, e, period, planet_moons)"
  have "planet_params ?p \<in> set (map planet_params (planets s))"
    using assms(3) by (simp only: set_map) (rule imageI)
  then have "planet_params ?p \<in> set (map desc_params descs)"
    using reachable_params [OF assms(1,2)] by simp
  then obtain d where d: "planet_params ?p = desc_params d" by auto
  obtain name r size' color' period' e' num_moons
    where dd: "d = (name, r, size', color', period', e', num_moons)" by (cases d)
  have ms: "map moon_params planet_moons =
      map (\<lambda>j. (size' * 2.5, 20 * (int j + 1))) [0..<nat num_moons]"
    using d by (simp add: dd planet_params_def desc_params_def)
  then have "length planet_moons = nat num_moons"
    using length_map [of moon_params planet_moons] by simp
  then have "map snd (map moon_params planet_moons) =
      map (\<lambda>j. 20 * (int j + 1)) [0..<length planet_moons]"
    by (simp add: ms)
  then have eq: "map (\<lambda>(moon, moon_orbit_radius, moon_period). moon_period) planet_moons =
      map (\<lambda>j. 20 * (int j + 1)) [0..<length planet_moons]"
    by (simp only: moon_periods_from_params)
  show ?thesis
    using eq distinct_moon_periods [of "length planet_moons"] by simp
qed

theorem moon_periods_witness:
  "\<exists>s0 s circle label a e period planet_moons.
     build_scene planet_data [] = Inr s0 \<and>
     run [0, 1] s0 = Inr s \<and>
     planets s ! 4 = (circle, label, a, e, period, planet_moons) \<and>
     map (\<lambda>(moon, moon_orbit_radius, moon_period). moon_period) planet_moons = [20, 40, 60, 80] \<and>
     distinct (map (\<lambda>(moon, moon_orbit_radius, moon_period). moon_period) planet_moons)"
proof -
  obtain s0 where b: "build_scene planet_data [] = Inr s0"
    using planet_data_builds by blast
  obtain s where r: "run [0, 1] s0 = Inr s"
    using planet_data_run_ok [OF b] by blast
  have len: "4 < length planet_data" by (simp add: planet_data_def)
  obtain circle label a e period planet_moons
    where p: "planets s ! 4 = (circle, label, a, e, period, planet_moons)"
    by (cases "planets s ! 4")
  have mem: "(circle, label, a, e, period, planet_moons) \<in> set (planets s)"
    using reachable_nth(1) [OF b r len] p by simp
  have "planet_params (planets s ! 4) = desc_params (planet_data ! 4)"
    using b r len by (rule reachable_nth(2))
  then have "length (map moon_params planet_moons) = 4"
    by (simp add: p planet_params_def desc_params_def planet_data_def)
  then have l: "length planet_moons = 4" by simp
  have "[0..<4] = [0, 1, 2, 3::nat]" by (simp add: upt_rec)
  then have "map (\<lambda>(moon, moon_orbit_radius, moon_period). moon_period) planet_moons = [20, 40, 60, 80] \<and>
     distinct (map (\<lambda>(moon, moon_orbit_radius, moon_period). moon_period) planet_moons)"
    using moon_periods [OF b r mem] by (simp add: l)
  then have "map (\<lambda>(moon, moon_orbit_radius, moon_period). moon_period) planet_moons = [20, 40, 60, 80]"
    and "distinct (map (\<lambda>(moon, moon_orbit_radius, moon_period). moon_period) planet_moons)"
    by (rule conjunct1, rule conjunct2)
  with b r p show ?thesis by (intro exI conjI)
qed

subsection \<open>Denominators\<close>

lemma planet_data_eccentricity_bounds:
  "\<forall>(name, r, size', color', period, e, num_moons)\<in>set planet_data.
     0 \<le> e \<and> e \<le> 0.2 \<and> period \<noteq> 0"
  by (simp add: planet_data_def)

text \<open>C10: for every descriptor of the planet table, 1 - e is at least 0.8, the radial
  denominator 1 + e * cos angle is at least 1 - e and positive at every angle, and the planet
  position of every frame is computed without error and is finite; the denominator
  distance + 0.1 of the star step is at least 0.1 for every star, and equal to 0.1 for a star
  at the origin.\<close>

theorem denominators_positive:
  "(\<forall>(name, r, size', color', period, e, num_moons)\<in>set planet_data.
      0.8 \<le> 1 - e \<and>
      (\<forall>angle. 1 - e \<le> radial_denominator e angle \<and> 0 < radial_denominator e angle) \<and>
      (\<forall>frame. \<exists>x y. planet_position frame (r / (1 - e)) e period = Inr (Some (x, y)))) \<and>
   (\<forall>star. 0.1 \<le> star_distance star + 0.1) \<and>
   star_distance (0, 0) + 0.1 = 0.1"
proof (intro conjI)
  show "\<forall>(name, r, size', color', period, e, num_moons)\<in>set planet_data.
      0.8 \<le> 1 - e \<and>
      (\<forall>angle. 1 - e \<le> radial_denominator e angle \<and> 0 < radial_denominator e angle) \<and>
      (\<forall>frame. \<exists>x y. planet_position frame (r / (1 - e)) e period = Inr (Some (x, y)))"
  proof (clarify, intro conjI allI)
    fix name :: string and r size' :: real and color' :: string and period :: int
      and e :: real and num_moons :: int
    assume "(name, r, size', color', period, e, num_moons) \<in> set planet_data"
    then have e: "0 \<le> e" "e \<le> 0.2" "period \<noteq> 0"
      using planet_data_eccentricity_bounds by auto
    show "0.8 \<le> 1 - e" using e(2) by simp
    have lower: "1 - e \<le> radial_denominator e angle" for angle
      using e(1) by (rule radial_denominator_lower)
    show "1 - e \<le> radial_denominator e angle" for angle
      by (rule lower)
    show "0 < radial_denominator e angle" for angle
      using lower [of angle] e(2) by linarith
    show "\<exists>x y. planet_position frame (r / (1 - e)) e period = Inr (Some (x, y))" for frame
      using e by (intro planet_position_finite) simp_all
  qed
next
  show "\<forall>star. 0.1 \<le> star_distance star + 0.1"
    by (simp add: star_distance_def case_prod_unfold)
next
  show "star_distance (0, 0) + 0.1 = 0.1"
    by (simp add: star_distance_def)
qed

theorem denominators_positive_witness:
  "0.8 \<le> 1 - (0.2::real) \<and>
   1 - 0.2 \<le> radial_denominator 0.2 pi \<and>
   0 < radial_denominator 0.2 pi \<and>
   (\<exists>x y. planet_position 44 (1.5 / (1 - 0.2)) 0.2 88 = Inr (Some (x, y))) \<and>
   0.1 \<le> star_distance (0, 0) + 0.1"
proof -
  have "(''Mercury'', 1.5, 0.08, ''darkgoldenrod'', 88, 0.2, 0) \<in> set planet_data"
    by (simp add: planet_data_def)
  then show ?thesis
    using denominators_positive by fast
qed

subsection \<open>Position at frame 0\<close>

text \<open>C6: in the scene built from the planet table, after any run that ends with the call
  for frame 0, every planet has orbit angle 0, radial distance a * (1 - e) and the position
  (a * (1 - e) - a * e, 0). For Earth, the third descriptor (base radius 3.0, e = 0.02, so
  a = 3.0 / 0.98), the radial distance is 3 and the position is (144/49, 0), and 144/49 is
  within 0.001 of 2.939.\<close>

theorem frame_0_position:
  assumes "build_scene planet_data stars0 = Inr s0"
    and "run (frames @ [0]) s0 = Inr s"
  shows "(\<forall>(circle, label, a, e, period, planet_moons)\<in>set (planets s).
            orbit_angle 0 period = Inr 0 \<and>
            radial_distance a e 0 = Some (a * (1 - e)) \<and>
            center circle = Some (a * (1 - e) - a * e, 0)) \<and>
         planet_data ! 2 = (''Earth'', 3.0, 0.13, ''dodgerblue'', 365, 0.02, 1) \<and>
         (\<exists>circle label planet_moons.
            planets s ! 2 = (circle, label, 3.0 / (1 - 0.02), 0.02, 365, planet_moons) \<and>
            radial_distance (3.0 / (1 - 0.02)) 0.02 0 = Some 3 \<and>
            center circle = Some (144 / 49, 0)) \<and>
         \<bar>144 / 49 - 2.939\<bar> < (0.001 :: real)"
proof (intro conjI)
  have pos: "orbit_angle 0 period = Inr 0 \<and>
            radial_distance a e 0 = Some (a * (1 - e)) \<and>
            center circle = Some (a * (1 - e) - a * e, 0)"
    if mem: "(circle, label, a, e, period, planet_moons) \<in> set (planets s)"
    for circle label a e period planet_moons
  proof -
    let ?p = "(circle, label, a, e, period, planet_moons)"
    have "well_formed (planet_params ?p)"
      using assms mem by (rule reachable_well_formed)
    then have e: "period \<noteq> 0" "e \<noteq> - 1"
      by (simp_all add: well_formed_def planet_params_def)
    obtain s1 where u: "update_scene 0 s1 = Inr s"
      using assms(2) by (auto simp: run_snoc split: sum.splits)
    obtain p0 where "update_planet 0 p0 = Inr ?p"
      using update_scene_member [OF u mem] by blast
    then have "planet_position 0 a e period = Inr (center circle)"
      by (rule update_planet_centers(1))
    then show ?thesis
      using planet_position_frame_0 [OF e] by simp
  qed
  then show "\<forall>(circle, label, a, e, period, planet_moons)\<in>set (planets s).
            orbit_angle 0 period = Inr 0 \<and>
            radial_distance a e 0 = Some (a * (1 - e)) \<and>
            center circle = Some (a * (1 - e) - a * e, 0)"
    by blast
  show "planet_data ! 2 = (''Earth'', 3.0, 0.13, ''dodgerblue'', 365, 0.02, 1)"
    by (simp add: planet_data_def)
  have len: "2 < length planet_data" by (simp add: planet_data_def)
  obtain circle label a e period planet_moons
    where p: "planets s ! 2 = (circle, label, a, e, period, planet_moons)"
    by (cases "planets s ! 2")
  have mem: "(circle, label, a, e, period, planet_moons) \<in> set (planets s)"
    using reachable_nth(1) [OF assms len] p by simp
  have "planet_params (planets s ! 2) = desc_params (planet_data ! 2)"
    using assms len by (rule reachable_nth(2))
  then have q: "a = 3.0 / (1 - 0.02)" "e = 0.02" "period = 365"
    by (simp_all add: p planet_params_def desc_params_def planet_data_def)
  have c: "radial_distance a e 0 = Some (a * (1 - e))"
    "center circle = Some (a * (1 - e) - a * e, 0)"
    using pos [OF mem] by simp_all
  have v: "a * (1 - e) = 3" "a * (1 - e) - a * e = 144 / 49"
    by (simp_all add: q)
  have "planets s ! 2 = (circle, label, 3.0 / (1 - 0.02), 0.02, 365, planet_moons) \<and>
      radial_distance (3.0 / (1 - 0.02)) 0.02 0 = Some 3 \<and>
      center circle = Some (144 / 49, 0)"
    using p c unfolding v unfolding q by simp
  then show "\<exists>circle label planet_moons.
            planets s ! 2 = (circle, label, 3.0 / (1 - 0.02), 0.02, 365, planet_moons) \<and>
            radial_distance (3.0 / (1 - 0.02)) 0.02 0 = Some 3 \<and>
            center circle = Some (144 / 49, 0)"
    by blast
  show "\<bar>144 / 49 - 2.939\<bar> < (0.001 :: real)"
    by simp
qed

theorem frame_0_position_witness:
  "\<exists>s0 s circle label planet_moons.
     build_scene planet_data [] = Inr s0 \<and>
     run ([7] @ [0]) s0 = Inr s \<and>
     planets s ! 2 = (circle, label, 3.0 / (1 - 0.02), 0.02, 365, planet_moons) \<and>
     center circle = Some (144 / 49, 0)"
proof -
  obtain s0 where b: "build_scene planet_data [] = Inr s0"
    using planet_data_builds by blast
  obtain s where r: "run ([7] @ [0]) s0 = Inr s"
    using planet_data_run_ok [OF b] by blast
  obtain circle label planet_moons
    where "planets s ! 2 = (circle, label, 3.0 / (1 - 0.02), 0.02, 365, planet_moons)"
      and "center circle = Some (144 / 49, 0)"
    using frame_0_position [OF b r] by blast
  with b r show ?thesis by (intro exI conjI)
qed

end
